theory Spec2Isabelle
  imports Complex_Main "HOL-Library.Sublist"
begin

section \<open>Python values used by \<open>zabbix_api.py\<close>\<close>

text \<open>
  Decoded JSON documents, as \<open>json.loads\<close> hands them to the client: \<open>null\<close> is
  Python's \<open>None\<close>, an object is a \<open>dict\<close> (kept as an association list whose first
  binding of a key is the dict's binding), an array is a \<open>list\<close>.
\<close>

datatype jval =
    JNull
  | JBool bool
  | JInt int
  | JFloat real
  | JStr string
  | JList "jval list"
  | JDict "(string \<times> jval) list"

text \<open>Python truthiness, \<open>bool(v)\<close>.\<close>

fun truthy :: "jval \<Rightarrow> bool" where
  "truthy JNull = False"
| "truthy (JBool b) = b"
| "truthy (JInt i) = (i \<noteq> 0)"
| "truthy (JFloat r) = (r \<noteq> 0)"
| "truthy (JStr s) = (s \<noteq> [])"
| "truthy (JList xs) = (xs \<noteq> [])"
| "truthy (JDict kvs) = (kvs \<noteq> [])"

text \<open>Truthiness of an optional string argument (\<open>None\<close> and \<open>''\<close> are false).\<close>

fun truthy_str :: "string option \<Rightarrow> bool" where
  "truthy_str None = False"
| "truthy_str (Some s) = (s \<noteq> [])"

definition dq :: char where
  "dq = CHR 0x22"

definition nl :: char where
  "nl = CHR 0x0A"

subsection \<open>Decimal rendering of integers (\<open>%d\<close>, and \<open>%s\<close> of an int)\<close>

definition digit_char :: "nat \<Rightarrow> char" where
  "digit_char n = ''0123456789'' ! n"

function str_nat :: "nat \<Rightarrow> string" where
  "str_nat n = (if n < 10 then [digit_char n] else str_nat (n div 10) @ [digit_char (n mod 10)])"
  by pat_completeness auto
termination
  by (relation "measure (\<lambda>n. n)") auto

declare str_nat.simps [simp del]

lemma str_nat_digit: "n < 10 \<Longrightarrow> str_nat n = [digit_char n]"
  by (simp add: str_nat.simps)

lemma str_nat_step: "10 \<le> n \<Longrightarrow> str_nat n = str_nat (n div 10) @ [digit_char (n mod 10)]"
  by (subst str_nat.simps) simp

definition str_int :: "int \<Rightarrow> string" where
  "str_int i = (if i < 0 then CHR ''-'' # str_nat (nat (- i)) else str_nat (nat i))"

subsection \<open>String search\<close>

fun startswith :: "string \<Rightarrow> string \<Rightarrow> bool" where
  "startswith s [] = True"
| "startswith [] (p # ps) = False"
| "startswith (c # cs) (p # ps) = (c = p \<and> startswith cs ps)"

text \<open>\<open>s.find(sub)\<close>: the lowest index at which \<open>sub\<close> occurs in \<open>s\<close>, or \<open>-1\<close>.\<close>

fun str_find :: "string \<Rightarrow> string \<Rightarrow> int" where
  "str_find [] sub = (if sub = [] then 0 else - 1)"
| "str_find (c # cs) sub =
     (if startswith (c # cs) sub then 0
      else (let r = str_find cs sub in if r < 0 then - 1 else r + 1))"

text \<open>\<open>s.split(sep)[0]\<close> for a non-empty separator: the text before its first occurrence.\<close>

fun split_first :: "string \<Rightarrow> string \<Rightarrow> string" where
  "split_first [] sep = []"
| "split_first (c # cs) sep =
     (if startswith (c # cs) sep then [] else c # split_first cs sep)"

section \<open>Module constants and \<open>hide_auth\<close>\<close>

definition TRIGGER_SEVERITY :: "string list" where
  "TRIGGER_SEVERITY =
     [''not_classified'', ''information'', ''warning'', ''average'', ''high'', ''disaster'']"

text \<open>
  Both entries of \<open>RE_HIDE_AUTH\<close> have the shape \<open>(GROUP)".*?"\<close> with the replacement
  \<open>\1"***"\<close>; an entry is kept as the text of its group. \<open>.\<close> matches every character
  but a line feed, and \<open>.*?\<close> is lazy, so the match ends at the first double quote
  that follows the opening one, and fails when a line feed comes first.
\<close>

definition RE_HIDE_AUTH :: "string list" where
  \<open>RE_HIDE_AUTH = [''"auth": '', ''"password": '']\<close>

fun strip_prefix :: "string \<Rightarrow> string \<Rightarrow> string option" where
  "strip_prefix [] s = Some s"
| "strip_prefix (p # ps) [] = None"
| "strip_prefix (p # ps) (c # cs) = (if p = c then strip_prefix ps cs else None)"

text \<open>The part \<open>.*?"\<close> of a pattern: the text left after the closing quote.\<close>

fun lazy_to_quote :: "string \<Rightarrow> string option" where
  "lazy_to_quote [] = None"
| "lazy_to_quote (c # cs) =
     (if c = dq then Some cs else if c = nl then None else lazy_to_quote cs)"

text \<open>One attempt to match \<open>(grp)".*?"\<close> at the start of a text.\<close>

definition match_here :: "string \<Rightarrow> string \<Rightarrow> string option" where
  "match_here grp s =
     (case strip_prefix (grp @ [dq]) s of
        None \<Rightarrow> None
      | Some rest \<Rightarrow> lazy_to_quote rest)"

lemma strip_prefix_length: "strip_prefix p s = Some r \<Longrightarrow> length r \<le> length s"
  by (induction p s rule: strip_prefix.induct) (auto split: if_splits)

lemma lazy_to_quote_length: "lazy_to_quote s = Some r \<Longrightarrow> length r < length s"
  by (induction s) (auto split: if_splits)

lemma match_here_length: "match_here grp s = Some r \<Longrightarrow> length r < length s"
  unfolding match_here_def
  by (auto split: option.splits dest!: strip_prefix_length lazy_to_quote_length)

text \<open>
  \<open>pattern.sub(repl, msg)\<close>: the matches are taken from left to right and do not
  overlap; the search goes on right after a match, and one character further where
  there is none.
\<close>

function re_sub :: "string \<Rightarrow> string \<Rightarrow> string" where
  "re_sub grp [] = []"
| "re_sub grp (c # cs) =
     (case match_here grp (c # cs) of
        Some rest \<Rightarrow> grp @ [dq] @ ''***'' @ [dq] @ re_sub grp rest
      | None \<Rightarrow> c # re_sub grp cs)"
  by pat_completeness auto
termination
  by (relation "measure (\<lambda>(grp, s). length s)") (auto dest: match_here_length)

definition hide_auth :: "string \<Rightarrow> string" where
  "hide_auth msg = fold re_sub RE_HIDE_AUTH msg"

section \<open>Exceptions\<close>

text \<open>
  \<open>%s\<close> of a decoded value. What Python prints for a float, a list or a dict is its
  \<open>repr\<close>, taken as a parameter.
\<close>

fun py_str :: "(jval \<Rightarrow> string) \<Rightarrow> jval \<Rightarrow> string" where
  "py_str rp (JStr s) = s"
| "py_str rp JNull = ''None''"
| "py_str rp (JBool b) = (if b then ''True'' else ''False'')"
| "py_str rp (JInt i) = str_int i"
| "py_str rp v = rp v"

datatype py_exception =
    ZabbixAPIException string
  | ZabbixAPIError "(string \<times> jval) list" string
  | TypeError
  | ValueError string
  | AttributeError string

text \<open>\<open>ZabbixAPIException.__init__\<close>: the message is stored redacted.\<close>

definition new_ZabbixAPIException :: "string \<Rightarrow> py_exception" where
  "new_ZabbixAPIException msg = ZabbixAPIException (hide_auth msg)"

definition error_template :: "(string \<times> jval) list" where
  "error_template = [(''code'', JInt (- 1)), (''message'', JStr ''''), (''data'', JNull)]"

fun dict_set :: "(string \<times> jval) list \<Rightarrow> string \<Rightarrow> jval \<Rightarrow> (string \<times> jval) list" where
  "dict_set [] k v = [(k, v)]"
| "dict_set ((k', v') # kvs) k v =
     (if k' = k then (k, v) # kvs else (k', v') # dict_set kvs k v)"

text \<open>\<open>dict(base, **kwargs)\<close>.\<close>

definition dict_merge :: "(string \<times> jval) list \<Rightarrow> (string \<times> jval) list \<Rightarrow> (string \<times> jval) list" where
  "dict_merge base kwargs = foldl (\<lambda>d (k, v). dict_set d k v) base kwargs"

definition dict_get :: "(string \<times> jval) list \<Rightarrow> string \<Rightarrow> jval" where
  "dict_get d k = (case map_of d k of Some v \<Rightarrow> v | None \<Rightarrow> JNull)"

text \<open>\<open>ZabbixAPIError.__init__\<close>; the three keys of the template are always bound.\<close>

definition new_ZabbixAPIError :: "(jval \<Rightarrow> string) \<Rightarrow> (string \<times> jval) list \<Rightarrow> py_exception" where
  "new_ZabbixAPIError rp error_kwargs =
     (let error = dict_merge error_template error_kwargs;
          msg = py_str rp (dict_get error ''message'') @ '' '' @
                py_str rp (dict_get error ''data'') @ '' ['' @
                py_str rp (dict_get error ''code'') @ '']''
      in ZabbixAPIError error (hide_auth msg))"

text \<open>\<open>except ZabbixAPIException\<close> catches the class and its subclass.\<close>

fun is_ZabbixAPIException :: "py_exception \<Rightarrow> bool" where
  "is_ZabbixAPIException (ZabbixAPIException m) = True"
| "is_ZabbixAPIException (ZabbixAPIError d m) = True"
| "is_ZabbixAPIException e = False"

text \<open>\<open>str(ex)\<close> of the two exception classes of the module.\<close>

fun exc_str :: "py_exception \<Rightarrow> string" where
  "exc_str (ZabbixAPIException m) = m"
| "exc_str (ZabbixAPIError d m) = m"
| "exc_str (ValueError m) = m"
| "exc_str (AttributeError m) = m"
| "exc_str TypeError = []"

section \<open>Static helpers\<close>

text \<open>Indexing a tuple: a negative index counts from the end, anything else out of
  range raises \<open>IndexError\<close> (\<open>None\<close> here).\<close>

definition tuple_getitem :: "'a list \<Rightarrow> int \<Rightarrow> 'a option" where
  "tuple_getitem xs i =
     (let n = int (length xs); j = (if i < 0 then n + i else i)
      in if 0 \<le> j \<and> j < n then Some (xs ! nat j) else None)"

text \<open>\<open>get_severity\<close>, on the value of \<open>int(prio)\<close>.\<close>

definition get_severity :: "int \<Rightarrow> string" where
  "get_severity prio =
     (case tuple_getitem TRIGGER_SEVERITY prio of
        Some s \<Rightarrow> s
      | None \<Rightarrow> ''unknown'')"

text \<open>
  A naive \<open>datetime\<close> is a count of microseconds on a linear time scale; the difference
  of two of them is a \<open>timedelta\<close>, normalised as Python does: \<open>0 \<le> seconds < 86400\<close>,
  \<open>0 \<le> microseconds < 1000000\<close>, the sign carried by \<open>days\<close>.
\<close>

record timedelta =
  days :: int
  seconds :: int
  microseconds :: int

definition datetime_sub :: "int \<Rightarrow> int \<Rightarrow> timedelta" where
  "datetime_sub a b =
     (let us = a - b in
      \<lparr> days = us div 86400000000,
        seconds = (us mod 86400000000) div 1000000,
        microseconds = us mod 1000000 \<rparr>)"

text \<open>\<open>get_age\<close>; the first argument is the reading of \<open>datetime.now()\<close>.\<close>

definition get_age :: "int \<Rightarrow> int \<Rightarrow> string" where
  "get_age now dt =
     (let delta = datetime_sub now dt;
          hours = seconds delta div 3600;
          rem = seconds delta mod 3600;
          minutes = rem div 60;
          secs = rem mod 60
      in if days delta \<noteq> 0
         then str_int (days delta) @ ''d '' @ str_int hours @ ''h '' @ str_int minutes @ ''m''
         else str_int hours @ ''h '' @ str_int minutes @ ''m '' @ str_int secs @ ''s'')"

section \<open>The client\<close>

text \<open>
  What the client gets from outside the module: the JSON codec, \<open>repr\<close>, base64, the
  clock and the HTTP opener. \<open>opener_open k body\<close> is what the \<open>k\<close>-th HTTP exchange
  of the instance does with the request body \<open>body\<close>; \<open>time k\<close> is the \<open>k\<close>-th reading
  of the clock.
\<close>

datatype http_outcome =
    Open_raises string
  | Response int string string

record env =
  json_dumps :: "jval \<Rightarrow> string"
  json_loads :: "string \<Rightarrow> string + jval"
  py_repr :: "jval \<Rightarrow> string"
  b64encode :: "string \<Rightarrow> string"
  opener_open :: "nat \<Rightarrow> string \<Rightarrow> http_outcome"
  time :: "nat \<Rightarrow> real"

text \<open>
  The attributes of a \<open>ZabbixAPI\<close> instance. \<open>auth\<close> is \<open>JNull\<close> for \<open>None\<close>.
  \<open>api_methods\<close> holds the names bound by \<open>__getattr__\<close> to a \<open>ZabbixAPISubClass\<close>.
  The last three fields are not attributes: \<open>sent\<close> lists every request body handed
  to the opener, \<open>n_time\<close> counts the readings of the clock and \<open>n_relogin\<close> the
  calls of \<open>relogin\<close>.
\<close>

record ZabbixAPI =
  username :: "string option"
  password :: "string option"
  auth :: jval
  http_headers :: "(string \<times> string) list"
  api_url :: string
  id' :: int
  last_login :: "real option"
  server :: string
  httpuser :: "string option"
  httppasswd :: "string option"
  timeout :: int
  relogin_interval :: "int option"
  r_query :: "string list"
  r_query_maxlen :: "nat option"
  api_methods :: "string list"
  sent :: "string list"
  n_time :: nat
  n_relogin :: nat

type_synonym 'a result = "(py_exception + 'a) \<times> ZabbixAPI"

subsection \<open>Construction\<close>

text \<open>\<open>deque.append\<close> on a deque with \<open>maxlen\<close>: the oldest entry leaves when the
  deque is full.\<close>

definition deque_append :: "nat option \<Rightarrow> 'a list \<Rightarrow> 'a \<Rightarrow> 'a list" where
  "deque_append maxlen xs x =
     (let ys = xs @ [x] in
      case maxlen of
        None \<Rightarrow> ys
      | Some n \<Rightarrow> if length ys > n then tl ys else ys)"

definition init :: "env \<Rightarrow> ZabbixAPI \<Rightarrow> unit result" where
  "init e self =
     (let proto = split_first (server self) ''://'' in
      if proto \<noteq> ''https'' \<and> proto \<noteq> ''http''
      then (Inl (ValueError (''Invalid protocol '' @ proto)), self)
      else
        let self1 = self\<lparr> api_url := server self @ ''/api_jsonrpc.php'',
                           http_headers := [(''Content-Type'', ''application/json-rpc''),
                                            (''User-Agent'', ''python/zabbix_api'')] \<rparr>
        in if truthy_str (httpuser self1)
           then (case httppasswd self1 of
                   None \<Rightarrow> (Inl TypeError, self1)
                 | Some pw \<Rightarrow>
                     (Inr (), self1\<lparr> http_headers := http_headers self1 @
                        [(''Authorization'',
                          ''Basic '' @ b64encode e (the (httpuser self1) @ '':'' @ pw))] \<rparr>))
           else (Inr (), self1))"

text \<open>\<open>ZabbixAPI.__init__\<close>; \<open>deque(maxlen=n)\<close> raises \<open>ValueError\<close> for a negative \<open>n\<close>.\<close>

definition new_ZabbixAPI ::
  "env \<Rightarrow> string \<Rightarrow> string option \<Rightarrow> string option \<Rightarrow> int \<Rightarrow> int option \<Rightarrow> int option
     \<Rightarrow> unit result" where
  "new_ZabbixAPI e srv user passwd tmo interval r_query_len =
     (let self = \<lparr> username = None, password = None, auth = JNull, http_headers = [],
                   api_url = [], id' = 0, last_login = None, server = srv, httpuser = user,
                   httppasswd = passwd, timeout = tmo, relogin_interval = interval,
                   r_query = [], r_query_maxlen = map_option nat r_query_len,
                   api_methods = [], sent = [], n_time = 0, n_relogin = 0 \<rparr>
      in case r_query_len of
           Some n \<Rightarrow> if n < 0 then (Inl (ValueError ''maxlen must be non-negative''), self)
                     else init e self
         | None \<Rightarrow> init e self)"

text \<open>The defaults of the keyword arguments of \<open>__init__\<close>.\<close>

definition default_ZabbixAPI :: "env \<Rightarrow> unit result" where
  "default_ZabbixAPI e =
     new_ZabbixAPI e ''http://localhost/zabbix'' None None 10 (Some 60) (Some 10)"

subsection \<open>Attribute access\<close>

text \<open>The public names that the class and \<open>__init__\<close> bind; a name bound there never
  reaches \<open>__getattr__\<close>.\<close>

definition bound_names :: "string list" where
  "bound_names =
     [''id'', ''last_login'', ''QUERY_EXTEND'', ''QUERY_COUNT'', ''SORT_ASC'', ''SORT_DESC'',
      ''init'', ''get_severity'', ''get_datetime'', ''convert_datetime'',
      ''timestamp_to_datetime'', ''get_age'', ''recent_query'', ''set_log_level'', ''log'',
      ''debug'', ''json_obj'', ''do_request'', ''login'', ''relogin'', ''logged_in'',
      ''check_auth'', ''api_version'', ''call'', ''logger'', ''server'', ''httpuser'',
      ''httppasswd'', ''timeout'', ''relogin_interval'', ''r_query'']"

datatype ZabbixAPISubClass = ZabbixAPISubClass string

text \<open>An instance of a class with neither \<open>__bool__\<close> nor \<open>__len__\<close> is true.\<close>

fun truthy_subclass :: "ZabbixAPISubClass \<Rightarrow> bool" where
  "truthy_subclass (ZabbixAPISubClass pfx) = True"

text \<open>\<open>ZabbixAPI.__getattr__\<close>, called for a name that the ordinary lookup misses.\<close>

definition getattr' :: "ZabbixAPI \<Rightarrow> string \<Rightarrow> ZabbixAPISubClass result" where
  "getattr' self name =
     (if startswith name ''_''
      then (Inl (AttributeError name), self)
      else (Inr (ZabbixAPISubClass name), self\<lparr> api_methods := name # api_methods self \<rparr>))"

text \<open>\<open>self.name\<close> for a name outside \<open>bound_names\<close>: the wrapper bound by an earlier
  access, or else \<open>__getattr__\<close>.\<close>

definition get_api_method :: "ZabbixAPI \<Rightarrow> string \<Rightarrow> ZabbixAPISubClass result" where
  "get_api_method self name =
     (if name \<in> set (api_methods self) then (Inr (ZabbixAPISubClass name), self)
      else getattr' self name)"

subsection \<open>Requests\<close>

definition json_obj :: "env \<Rightarrow> ZabbixAPI \<Rightarrow> string \<Rightarrow> jval option \<Rightarrow> bool \<Rightarrow> string" where
  "json_obj e self method params with_auth =
     json_dumps e (JDict
       [(''jsonrpc'', JStr ''2.0''),
        (''method'', JStr method),
        (''params'', (case params of None \<Rightarrow> JDict [] | Some p \<Rightarrow> p)),
        (''auth'', (if with_auth then auth self else JNull)),
        (''id'', JInt (id' self))])"

text \<open>\<open>'error' in jobj\<close>: \<open>None\<close> where Python raises \<open>TypeError\<close>.\<close>

fun contains_error :: "jval \<Rightarrow> bool option" where
  "contains_error (JDict kvs) = Some (map_of kvs ''error'' \<noteq> None)"
| "contains_error (JList xs) = Some (JStr ''error'' \<in> set xs)"
| "contains_error (JStr s) = Some (0 \<le> str_find s ''error'')"
| "contains_error v = None"

text \<open>The end of \<open>do_request\<close>: \<open>return jobj['result']\<close> under \<open>except KeyError\<close>.\<close>

fun get_result :: "jval \<Rightarrow> py_exception + jval" where
  "get_result (JDict kvs) =
     (case map_of kvs ''result'' of
        Some v \<Rightarrow> Inr v
      | None \<Rightarrow> Inl (new_ZabbixAPIException ''Missing result in API response''))"
| "get_result v = Inl TypeError"

text \<open>\<open>do_request\<close> from the decoded document on; \<open>jobj['error']\<close> of a list or a string
  raises \<open>TypeError\<close>.\<close>

definition read_response :: "env \<Rightarrow> jval \<Rightarrow> py_exception + jval" where
  "read_response e jobj =
     (case contains_error jobj of
        None \<Rightarrow> Inl TypeError
      | Some False \<Rightarrow> get_result jobj
      | Some True \<Rightarrow>
          (case jobj of
             JDict kvs \<Rightarrow>
               (case dict_get kvs ''error'' of
                  JDict error \<Rightarrow> Inl (new_ZabbixAPIError (py_repr e) error)
                | _ \<Rightarrow> get_result jobj)
           | _ \<Rightarrow> Inl TypeError))"

definition do_request :: "env \<Rightarrow> ZabbixAPI \<Rightarrow> string \<Rightarrow> jval result" where
  "do_request e self body =
     (let self1 = self\<lparr> r_query := deque_append (r_query_maxlen self) (r_query self) body,
                        sent := sent self @ [body] \<rparr>
      in case opener_open e (length (sent self)) body of
           Open_raises err \<Rightarrow>
             (Inl (new_ZabbixAPIException (''HTTP connection problem: '' @ err)), self1)
         | Response code reason reads \<Rightarrow>
             if code \<noteq> 200
             then (Inl (new_ZabbixAPIException
                          (''HTTP error '' @ str_int code @ '': '' @ reason)), self1)
             else if length reads = 0
             then (Inl (new_ZabbixAPIException ''Received zero answer''), self1)
             else (case json_loads e reads of
                     Inl err \<Rightarrow>
                       (Inl (new_ZabbixAPIException (''Unable to decode response: '' @ err)),
                        self1)
                   | Inr jobj \<Rightarrow>
                       (read_response e jobj, self1\<lparr> id' := id' self1 + 1 \<rparr>)))"

subsection \<open>Session\<close>

definition login :: "env \<Rightarrow> ZabbixAPI \<Rightarrow> string option \<Rightarrow> string option \<Rightarrow> bool \<Rightarrow> unit result" where
  "login e self user passwd save =
     (let chosen =
        (if truthy_str user \<and> truthy_str passwd
         then Some (the user, the passwd,
                    if save then self\<lparr> username := user, password := passwd \<rparr> else self)
         else if truthy_str (username self) \<and> truthy_str (password self)
         then Some (the (username self), the (password self), self)
         else None)
      in case chosen of
           None \<Rightarrow>
             (Inl (new_ZabbixAPIException ''No authentication information available.''), self)
         | Some (u, p, self1) \<Rightarrow>
             let self2 = self1\<lparr> last_login := Some (time e (n_time self1)),
                                n_time := Suc (n_time self1) \<rparr>;
                 obj = json_obj e self2 ''user.login''
                         (Some (JDict [(''user'', JStr u), (''password'', JStr p)])) False
             in case do_request e self2 obj of
                  (Inl ex, self3) \<Rightarrow> (Inl ex, self3)
                | (Inr r, self3) \<Rightarrow> (Inr (), self3\<lparr> auth := r \<rparr>))"

definition relogin :: "env \<Rightarrow> ZabbixAPI \<Rightarrow> unit result" where
  "relogin e self =
     (case login e (self\<lparr> auth := JNull, n_relogin := Suc (n_relogin self) \<rparr>) None None True of
        (Inl ex, self1) \<Rightarrow>
          if is_ZabbixAPIException ex then (Inl ex, self1\<lparr> auth := JNull \<rparr>)
          else (Inl ex, self1)
      | (Inr u, self1) \<Rightarrow> (Inr u, self1))"

definition logged_in :: "ZabbixAPI \<Rightarrow> bool" where
  "logged_in self = truthy (auth self)"

text \<open>\<open>check_auth\<close>. The \<open>and\<close> chain reads the clock only when both
  \<open>relogin_interval\<close> and \<open>last_login\<close> are true: neither \<open>None\<close> nor zero.\<close>

definition check_auth :: "env \<Rightarrow> ZabbixAPI \<Rightarrow> unit result" where
  "check_auth e self =
     (if logged_in self then (Inr (), self)
      else
        (case (relogin_interval self, last_login self) of
           (Some interval, Some prev) \<Rightarrow>
             if interval \<noteq> 0 \<and> prev \<noteq> 0
             then
               let now = time e (n_time self);
                   self1 = self\<lparr> n_time := Suc (n_time self) \<rparr>
               in if now - prev > real_of_int interval
                  then relogin e self1
                  else (Inl (new_ZabbixAPIException ''Not logged in.''), self1)
             else (Inl (new_ZabbixAPIException ''Not logged in.''), self)
         | _ \<Rightarrow> (Inl (new_ZabbixAPIException ''Not logged in.''), self)))"

definition api_version :: "env \<Rightarrow> ZabbixAPI \<Rightarrow> jval result" where
  "api_version e self = do_request e self (json_obj e self ''apiinfo.version'' None False)"

text \<open>The \<open>finally\<close> clause of \<open>call\<close> reads the clock once more for its log line.\<close>

definition tick :: "ZabbixAPI \<Rightarrow> ZabbixAPI" where
  "tick self = self\<lparr> n_time := Suc (n_time self) \<rparr>"

definition not_authorized :: "py_exception \<Rightarrow> bool" where
  "not_authorized ex = (0 \<le> str_find (exc_str ex) ''Not authorized while sending'')"

definition call :: "env \<Rightarrow> ZabbixAPI \<Rightarrow> string \<Rightarrow> jval option \<Rightarrow> jval result" where
  "call e self method params =
     (case check_auth e (tick self) of
        (Inl ex, self1) \<Rightarrow> (Inl ex, self1)
      | (Inr u, self1) \<Rightarrow>
          (case do_request e self1 (json_obj e self1 method params True) of
             (Inr r, self2) \<Rightarrow> (Inr r, tick self2)
           | (Inl ex, self2) \<Rightarrow>
               if is_ZabbixAPIException ex
               then
                 (case get_api_method self2 ''relogin_enabled'' of
                    (Inl ex', self3) \<Rightarrow> (Inl ex', tick self3)
                  | (Inr relogin_enabled, self3) \<Rightarrow>
                      if truthy_subclass relogin_enabled \<and> not_authorized ex
                      then
                        (case relogin e self3 of
                           (Inl ex', self4) \<Rightarrow> (Inl ex', tick self4)
                         | (Inr u', self4) \<Rightarrow>
                             (case do_request e self4 (json_obj e self4 method params True) of
                                (res, self5) \<Rightarrow> (res, tick self5)))
                      else (Inl ex, tick self3))
               else (Inl ex, tick self2)))"

section \<open>Severity labels\<close>

text \<open>
  C7 (the code departs from it). The claim asks for \<open>unknown\<close> at every \<open>prio\<close> outside
  \<open>0..5\<close>. The lookup indexes the tuple with \<open>int(prio)\<close> and only an \<open>IndexError\<close>
  yields \<open>unknown\<close>; a negative index from \<open>-6\<close> to \<open>-1\<close> counts from the end of the
  tuple, so \<open>get_severity(-1)\<close> is the label \<open>disaster\<close>.
\<close>

theorem get_severity_negative_index:
  "get_severity (- 1) = ''disaster'' \<and> get_severity (- 1) \<noteq> ''unknown''"
  by (simp add: get_severity_def tuple_getitem_def TRIGGER_SEVERITY_def)

section \<open>Age of a datetime\<close>

lemma div_mod_shift:
  fixes a :: int
  assumes "0 < b" and "0 \<le> c"
  shows "(a mod (b * c)) div b = (a div b) mod c"
  using assms by (simp add: zmod_zmult2_eq)

lemma div_div_const:
  fixes a :: int
  assumes "0 \<le> c"
  shows "a div b div c = a div (b * c)"
  using assms by (simp add: zdiv_zmult2_eq)

lemma delta_seconds: "((us::int) mod 86400000000) div 1000000 = (us div 1000000) mod 86400"
proof -
  have "(us mod (1000000 * 86400)) div 1000000 = (us div 1000000) mod 86400"
    by (rule div_mod_shift) simp_all
  then show ?thesis by simp
qed

lemma delta_hours:
  "((us::int) mod 86400000000) div 1000000 div 3600 = (us div 3600000000) mod 24"
proof -
  have "(us mod 86400000000) div 1000000 div 3600 = (us mod 86400000000) div (1000000 * 3600)"
    by (rule div_div_const) simp
  also have "\<dots> = (us mod (3600000000 * 24)) div 3600000000"
    by simp
  also have "\<dots> = (us div 3600000000) mod 24"
    by (rule div_mod_shift) simp_all
  finally show ?thesis .
qed

lemma delta_minutes:
  "((us::int) mod 86400000000) div 1000000 mod 3600 div 60 = (us div 60000000) mod 60"
proof -
  define t where "t = us div 1000000"
  have sq: "(60::int) * 60 = 3600" and mn: "(1000000::int) * 60 = 60000000"
    by simp_all
  have "(3600::int) dvd 86400"
    by simp
  then have a: "(t mod 86400) mod 3600 = t mod 3600"
    by (rule mod_mod_cancel)
  have b: "(t mod (60 * 60)) div 60 = (t div 60) mod 60"
    by (rule div_mod_shift) simp_all
  have c: "t div 60 = us div (1000000 * 60)"
    unfolding t_def by (rule div_div_const) simp
  have "(t mod 86400) mod 3600 div 60 = (t mod (60 * 60)) div 60"
    by (simp only: a sq)
  also have "\<dots> = (us div (1000000 * 60)) mod 60"
    by (simp only: b c)
  finally have "(t mod 86400) mod 3600 div 60 = (us div 60000000) mod 60"
    by (simp only: mn)
  then show ?thesis
    unfolding t_def delta_seconds .
qed

lemma delta_secs:
  "((us::int) mod 86400000000) div 1000000 mod 3600 mod 60 = (us div 1000000) mod 60"
  by (simp add: delta_seconds mod_mod_cancel)

lemma get_age_90_minutes: "get_age (dt + 5400000000) dt = ''1h 30m 0s''"
  by (simp add: get_age_def datetime_sub_def Let_def str_int_def str_nat_digit str_nat_step
        digit_char_def)

lemma get_age_1d_2h_5m: "get_age (dt + 93900000000) dt = ''1d 2h 5m''"
  by (simp add: get_age_def datetime_sub_def Let_def str_int_def str_nat_digit str_nat_step
        digit_char_def)

text \<open>
  C10, as the claim states it, fails: the branch is taken on \<open>if days\<close>, that is on
  \<open>days \<noteq> 0\<close>, and the delta to a datetime one second ahead of the clock has
  \<open>days = -1\<close> and \<open>seconds = 86399\<close>. The claim's "otherwise" case would give
  \<open>23h 59m 59s\<close> there; the code gives the days format.
\<close>

theorem get_age_future_counterexample:
  "\<not> 0 < days (datetime_sub 0 1000000)
   \<and> get_age 0 1000000 = ''-1d 23h 59m''
   \<and> get_age 0 1000000 \<noteq> ''23h 59m 59s''"
  by (simp add: get_age_def datetime_sub_def Let_def str_int_def str_nat_digit str_nat_step
        digit_char_def)

text \<open>
  C10, amended: with \<open>us\<close> the microseconds from \<open>dt\<close> to now, \<open>days\<close> is
  \<open>us div 86400000000\<close> (negative for a datetime ahead of the clock), and the hours,
  minutes and seconds are those of the time of day of \<open>us\<close>. \<open>get_age\<close> returns
  \<open><days>d <hours>h <minutes>m\<close> when \<open>days\<close> is not zero and
  \<open><hours>h <minutes>m <seconds>s\<close> when it is zero. A delta of 90 minutes gives
  \<open>1h 30m 0s\<close>, one of 1 day 2 hours 5 minutes gives \<open>1d 2h 5m\<close>.
\<close>

theorem get_age_format:
  "get_age now dt =
     (let us = now - dt;
          d = days (datetime_sub now dt);
          h = (us div 3600000000) mod 24;
          m = (us div 60000000) mod 60;
          s = (us div 1000000) mod 60
      in if d \<noteq> 0
         then str_int d @ ''d '' @ str_int h @ ''h '' @ str_int m @ ''m''
         else str_int h @ ''h '' @ str_int m @ ''m '' @ str_int s @ ''s'')
   \<and> days (datetime_sub now dt) = (now - dt) div 86400000000
   \<and> get_age (dt + 5400000000) dt = ''1h 30m 0s''
   \<and> get_age (dt + 93900000000) dt = ''1d 2h 5m''"
proof -
  have "get_age now dt =
     (let us = now - dt;
          d = days (datetime_sub now dt);
          h = (us div 3600000000) mod 24;
          m = (us div 60000000) mod 60;
          s = (us div 1000000) mod 60
      in if d \<noteq> 0
         then str_int d @ ''d '' @ str_int h @ ''h '' @ str_int m @ ''m''
         else str_int h @ ''h '' @ str_int m @ ''m '' @ str_int s @ ''s'')"
    unfolding get_age_def datetime_sub_def Let_def timedelta.simps
      delta_hours delta_minutes delta_secs
    by (rule refl)
  moreover have "days (datetime_sub now dt) = (now - dt) div 86400000000"
    by (simp add: datetime_sub_def Let_def)
  moreover note get_age_90_minutes [of dt] get_age_1d_2h_5m [of dt]
  ultimately show ?thesis
    by (intro conjI)
qed

end
